theory Spec2Isabelle
  imports Complex_Main
begin

section \<open>Scoring engine of the HVAC research dashboard\<close>

text \<open>
  A shallow embedding of \<^verbatim>\<open>lib/scoring/calculator.ts\<close>, of the polling loop of the
  deep-research client and of the region-discovery pipeline.

  Conventions of the embedding.
  \<^item> A TypeScript \<^verbatim>\<open>number\<close> is an exact rational: arithmetic is not rounded to
    binary64, and there is no NaN or infinity. Both divisions of the scoring code sit
    under a test that their divisor is positive, and the model keeps those tests.
  \<^item> An optional field is an \<open>option\<close>; JavaScript truthiness is written out where the
    code relies on it (\<^verbatim>\<open>x || 0\<close>, \<^verbatim>\<open>if (business.website)\<close>).
  \<^item> A template string is a list of pieces: the decimal rendering of a number is kept
    symbolic (\<open>NumStr\<close>, \<open>Fixed\<close>) instead of being computed.
  \<^item> Readings of the system clock are parameters (\<open>Clock\<close>), constant during one call.
\<close>

subsection \<open>Types (\<^verbatim>\<open>types/index.ts\<close>)\<close>

type_synonym number = rat

datatype OwnershipType =
  FAMILY_OWNED | FRANCHISE | PRIVATE_EQUITY | CORPORATE | UNKNOWN_OWNERSHIP

datatype SuccessionStatus =
  OWNER_RETIRING | SUCCESSION_PLANNED | NO_SUCCESSOR | RECENTLY_TRANSITIONED
  | UNKNOWN_SUCCESSION

datatype Recommendation =
  HIGH_PRIORITY | MEDIUM_PRIORITY | LOW_PRIORITY | NOT_RECOMMENDED

text \<open>A date is its time value in milliseconds. Only the fields that the modelled code
  reads are kept in the records of the attached relations.\<close>

record Permit =
  issueDate :: "int option"

record Review =
  rating :: number
  reviewCount :: number

record EmployeeEstimate =
  estimatedCount :: number

record FleetEstimate =
  vehicleCount :: number

record Business =
  serviceRadius :: "number option"
  website :: "string option"
  facebookUrl :: "string option"
  linkedinUrl :: "string option"
  instagramUrl :: "string option"
  niches :: "string list"
  ownershipType :: "OwnershipType option"
  ownerAge :: "number option"
  foundedYear :: "number option"
  successionStatus :: "SuccessionStatus option"

record BusinessWithRelations = Business +
  permits :: "Permit list option"
  reviews :: "Review list option"
  employees :: "EmployeeEstimate list option"
  fleet :: "FleetEstimate list option"

datatype text_piece = Lit string | NumStr number | Fixed nat number

type_synonym js_text = "text_piece list"

datatype factor_value = NumV number | TextV js_text

record ScoreFactor =
  name :: string
  fvalue :: factor_value
  fscore :: number
  weight :: number
  explanation :: js_text

record ComponentScore =
  score :: number
  factors :: "ScoreFactor list"

record 'a PerComponent =
  revenueProxy :: 'a
  onlineWeakness :: 'a
  acquisitionFit :: 'a
  growthSignals :: 'a

record Thresholds =
  highPriority :: number
  mediumPriority :: number
  lowPriority :: number

record FactorConfig =
  fc_name :: string
  fc_weight :: number
  fc_scorer :: string

record ScoringConfig =
  version :: string
  weights :: "number PerComponent"
  thresholds :: Thresholds
  factorTables :: "FactorConfig list PerComponent"

record Score =
  score_id :: string
  businessId :: string
  createdAt :: int
  updatedAt :: int
  revenueProxyScore :: number
  onlineWeaknessScore :: number
  acquisitionFitScore :: number
  growthSignalsScore :: number
  overallScore :: number
  recommendation :: Recommendation
  breakdown :: "ComponentScore PerComponent"
  configVersion :: string

text \<open>The clock: the current time value, and the two calendar operations of
  \<^verbatim>\<open>Date\<close> that the scorers call (the year of a date in local time, and a date moved
  to another year).\<close>

record Clock =
  now :: int
  getFullYear :: "int \<Rightarrow> int"
  setFullYear :: "int \<Rightarrow> int \<Rightarrow> int"

subsection \<open>JavaScript idioms\<close>

definition Math_round :: "number \<Rightarrow> number" where
  "Math_round x = of_int \<lfloor>x + 1 / 2\<rfloor>"

text \<open>\<^verbatim>\<open>x || 0\<close> on an optional number: an absent value and zero both give zero.\<close>

definition or_zero :: "number option \<Rightarrow> number" where
  "or_zero x = (case x of None \<Rightarrow> 0 | Some v \<Rightarrow> v)"

text \<open>Truthiness of an optional string: the empty string is falsy.\<close>

definition truthy_str :: "string option \<Rightarrow> bool" where
  "truthy_str s = (case s of None \<Rightarrow> False | Some t \<Rightarrow> t \<noteq> [])"

text \<open>\<^verbatim>\<open>xs?.[0]\<close>\<close>

definition first_elem :: "'a list option \<Rightarrow> 'a option" where
  "first_elem xs = (case xs of None \<Rightarrow> None | Some [] \<Rightarrow> None | Some (x # _) \<Rightarrow> Some x)"

definition lower_char :: "char \<Rightarrow> char" where
  "lower_char c =
     (case map_of (zip ''ABCDEFGHIJKLMNOPQRSTUVWXYZ'' ''abcdefghijklmnopqrstuvwxyz'') c of
        None \<Rightarrow> c | Some d \<Rightarrow> d)"

definition toLowerCase :: "string \<Rightarrow> string" where
  "toLowerCase s = map lower_char s"

fun join :: "string \<Rightarrow> string list \<Rightarrow> string" where
  "join sep [] = []"
| "join sep [x] = x"
| "join sep (x # y # ys) = x @ sep @ join sep (y # ys)"

text \<open>\<^verbatim>\<open>factors.reduce((sum, f) => sum + f.score * f.weight, 0)\<close>\<close>

definition weightedTotal :: "ScoreFactor list \<Rightarrow> number" where
  "weightedTotal fs = foldl (\<lambda>sum f. sum + fscore f * weight f) 0 fs"

subsection \<open>Default configuration\<close>

definition DEFAULT_SCORING_CONFIG :: ScoringConfig where
  "DEFAULT_SCORING_CONFIG =
     \<lparr> version = ''1.0'',
       weights = \<lparr> revenueProxy = 30 / 100, onlineWeakness = 25 / 100,
                   acquisitionFit = 25 / 100, growthSignals = 20 / 100 \<rparr>,
       thresholds = \<lparr> highPriority = 75, mediumPriority = 50, lowPriority = 25 \<rparr>,
       factorTables =
         \<lparr> revenueProxy =
             [\<lparr> fc_name = ''employeeCount'', fc_weight = 30 / 100, fc_scorer = ''employeeScorer'' \<rparr>,
              \<lparr> fc_name = ''fleetSize'', fc_weight = 25 / 100, fc_scorer = ''fleetScorer'' \<rparr>,
              \<lparr> fc_name = ''permitVolume'', fc_weight = 25 / 100, fc_scorer = ''permitScorer'' \<rparr>,
              \<lparr> fc_name = ''serviceArea'', fc_weight = 20 / 100, fc_scorer = ''serviceAreaScorer'' \<rparr>],
           onlineWeakness =
             [\<lparr> fc_name = ''websiteQuality'', fc_weight = 30 / 100, fc_scorer = ''websiteScorer'' \<rparr>,
              \<lparr> fc_name = ''socialPresence'', fc_weight = 20 / 100, fc_scorer = ''socialScorer'' \<rparr>,
              \<lparr> fc_name = ''reviewVolume'', fc_weight = 30 / 100, fc_scorer = ''reviewVolumeScorer'' \<rparr>,
              \<lparr> fc_name = ''seoVisibility'', fc_weight = 20 / 100, fc_scorer = ''seoScorer'' \<rparr>],
           acquisitionFit =
             [\<lparr> fc_name = ''ownershipType'', fc_weight = 30 / 100, fc_scorer = ''ownershipScorer'' \<rparr>,
              \<lparr> fc_name = ''businessAge'', fc_weight = 25 / 100, fc_scorer = ''ageScorer'' \<rparr>,
              \<lparr> fc_name = ''nicheSpecialization'', fc_weight = 25 / 100, fc_scorer = ''nicheScorer'' \<rparr>,
              \<lparr> fc_name = ''successionStatus'', fc_weight = 20 / 100, fc_scorer = ''successionScorer'' \<rparr>],
           growthSignals =
             [\<lparr> fc_name = ''permitTrend'', fc_weight = 35 / 100, fc_scorer = ''permitTrendScorer'' \<rparr>,
              \<lparr> fc_name = ''reviewTrend'', fc_weight = 25 / 100, fc_scorer = ''reviewTrendScorer'' \<rparr>,
              \<lparr> fc_name = ''hiringActivity'', fc_weight = 25 / 100, fc_scorer = ''hiringScorer'' \<rparr>,
              \<lparr> fc_name = ''fleetGrowth'', fc_weight = 15 / 100, fc_scorer = ''fleetGrowthScorer'' \<rparr>] \<rparr> \<rparr>"

subsection \<open>Helper functions of the calculator\<close>

definition getRecommendation :: "number \<Rightarrow> ScoringConfig \<Rightarrow> Recommendation" where
  "getRecommendation s config =
     (if s \<ge> highPriority (thresholds config) then HIGH_PRIORITY
      else if s \<ge> mediumPriority (thresholds config) then MEDIUM_PRIORITY
      else if s \<ge> lowPriority (thresholds config) then LOW_PRIORITY
      else NOT_RECOMMENDED)"

definition getEmployeeExplanation :: "number \<Rightarrow> js_text" where
  "getEmployeeExplanation count =
     (if count \<ge> 5 \<and> count \<le> 50
        then [NumStr count, Lit '' employees - ideal range for $1-10M revenue'']
      else if count > 50 then [NumStr count, Lit '' employees - may be larger than target'']
      else if count > 0 then [NumStr count, Lit '' employees - smaller operation'']
      else [Lit ''Employee count unknown''])"

definition getFleetExplanation :: "number \<Rightarrow> js_text" where
  "getFleetExplanation count =
     (if count \<ge> 3 \<and> count \<le> 20
        then [NumStr count, Lit '' vehicles - typical for target range'']
      else if count > 20 then [NumStr count, Lit '' vehicles - larger operation'']
      else if count > 0 then [NumStr count, Lit '' vehicles - smaller fleet'']
      else [Lit ''Fleet size unknown''])"

definition getOwnershipExplanation :: "OwnershipType option \<Rightarrow> js_text" where
  "getOwnershipExplanation t =
     (case t of
        Some FAMILY_OWNED \<Rightarrow> [Lit ''Family-owned - ideal acquisition target'']
      | Some FRANCHISE \<Rightarrow> [Lit ''Franchise - may have transfer restrictions'']
      | Some PRIVATE_EQUITY \<Rightarrow> [Lit ''PE-owned - likely not available'']
      | Some CORPORATE \<Rightarrow> [Lit ''Corporate - may be part of larger org'']
      | _ \<Rightarrow> [Lit ''Ownership type unknown''])"

definition getSuccessionExplanation ::
  "SuccessionStatus option \<Rightarrow> number option \<Rightarrow> js_text" where
  "getSuccessionExplanation status age =
     (let ageInfo = (case age of
                       None \<Rightarrow> [Lit '''']
                     | Some a \<Rightarrow> if a \<noteq> 0 then [Lit '' (owner age: '', NumStr a, Lit '')'']
                                else [Lit '''']) in
      case status of
        Some OWNER_RETIRING \<Rightarrow> Lit ''Owner retiring - high acquisition potential'' # ageInfo
      | Some NO_SUCCESSOR \<Rightarrow> Lit ''No successor identified - good opportunity'' # ageInfo
      | Some SUCCESSION_PLANNED \<Rightarrow> Lit ''Succession planned - may not be available'' # ageInfo
      | Some RECENTLY_TRANSITIONED \<Rightarrow> Lit ''Recently transitioned - unlikely to sell'' # ageInfo
      | _ \<Rightarrow> (case age of
                None \<Rightarrow> [Lit ''Succession status unknown'']
              | Some a \<Rightarrow> if a \<noteq> 0
                          then [Lit ''Succession unknown (owner age: '', NumStr a, Lit '')'']
                          else [Lit ''Succession status unknown'']))"

definition getPermitTrendExplanation :: "number \<Rightarrow> number \<Rightarrow> js_text" where
  "getPermitTrendExplanation current previous =
     (if previous = 0 then [Lit ''No historical permit data'']
      else let growth = ((current - previous) / previous) * 100 in
        if growth \<ge> 20 then [Lit ''Strong growth: '', Fixed 0 growth, Lit ''% increase'']
        else if growth \<ge> 10 then [Lit ''Moderate growth: '', Fixed 0 growth, Lit ''% increase'']
        else if growth \<ge> 0 then [Lit ''Stable: '', Fixed 0 growth, Lit ''% change'']
        else if growth \<ge> -10 then [Lit ''Slight decline: '', Fixed 0 growth, Lit ''% change'']
        else [Lit ''Declining: '', Fixed 0 growth, Lit ''% decrease''])"

definition ownershipName :: "OwnershipType \<Rightarrow> string" where
  "ownershipName t =
     (case t of FAMILY_OWNED \<Rightarrow> ''FAMILY_OWNED'' | FRANCHISE \<Rightarrow> ''FRANCHISE''
      | PRIVATE_EQUITY \<Rightarrow> ''PRIVATE_EQUITY'' | CORPORATE \<Rightarrow> ''CORPORATE''
      | UNKNOWN_OWNERSHIP \<Rightarrow> ''UNKNOWN'')"

definition successionName :: "SuccessionStatus \<Rightarrow> string" where
  "successionName t =
     (case t of OWNER_RETIRING \<Rightarrow> ''OWNER_RETIRING''
      | SUCCESSION_PLANNED \<Rightarrow> ''SUCCESSION_PLANNED'' | NO_SUCCESSOR \<Rightarrow> ''NO_SUCCESSOR''
      | RECENTLY_TRANSITIONED \<Rightarrow> ''RECENTLY_TRANSITIONED''
      | UNKNOWN_SUCCESSION \<Rightarrow> ''UNKNOWN'')"

subsection \<open>Revenue Proxy\<close>

text \<open>The local variables of each scorer are definitions of their own, under the names
  they have in the source; the scorer assembles them in the source's order.\<close>

definition employeeCount :: "BusinessWithRelations \<Rightarrow> number" where
  "employeeCount business =
     or_zero (map_option estimatedCount (first_elem (employees business)))"

definition employeeScore :: "number \<Rightarrow> number" where
  "employeeScore staff =
     (if staff \<ge> 5 \<and> staff \<le> 50 then 100 - \<bar>staff - 25\<bar> * 2
      else if staff > 50 \<and> staff \<le> 100 then 50
      else if staff > 0 \<and> staff < 5 then staff * 15
      else 0)"

definition fleetSize :: "BusinessWithRelations \<Rightarrow> number" where
  "fleetSize business = or_zero (map_option vehicleCount (first_elem (fleet business)))"

definition fleetScore :: "number \<Rightarrow> number" where
  "fleetScore vehicles =
     (if vehicles \<ge> 3 \<and> vehicles \<le> 20 then 100 - \<bar>vehicles - 10\<bar> * 5
      else if vehicles > 20 \<and> vehicles \<le> 40 then 60
      else if vehicles > 0 \<and> vehicles < 3 then vehicles * 25
      else 0)"

definition oneYearAgo :: "Clock \<Rightarrow> int" where
  "oneYearAgo clock = setFullYear clock (now clock) (getFullYear clock (now clock) - 1)"

definition recentPermits :: "Clock \<Rightarrow> BusinessWithRelations \<Rightarrow> number" where
  "recentPermits clock business =
     (case permits business of
        None \<Rightarrow> 0
      | Some ps \<Rightarrow>
          of_nat (length (filter
            (\<lambda>p. case issueDate p of None \<Rightarrow> False | Some d \<Rightarrow> d \<ge> oneYearAgo clock) ps)))"

definition permitScore :: "number \<Rightarrow> number" where
  "permitScore recent =
     (if recent \<ge> 50 \<and> recent \<le> 400
        then 80 + (if recent \<ge> 100 \<and> recent \<le> 300 then 20 else 0)
      else if recent > 400 then 60
      else if recent > 0 then min (recent * (15 / 10)) 75
      else 0)"

definition areaScore :: "number \<Rightarrow> number" where
  "areaScore radius =
     (if radius > 0
        then (if radius \<ge> 20 \<and> radius \<le> 75 then 90
              else if radius > 75 then 70
              else radius * 3)
      else 50)"

definition calculateRevenueProxyScore ::
  "Clock \<Rightarrow> BusinessWithRelations \<Rightarrow> ScoringConfig \<Rightarrow> ComponentScore" where
  "calculateRevenueProxyScore clock business config =
     (let staff = employeeCount business;
          vehicles = fleetSize business;
          recent = recentPermits clock business;
          radius = or_zero (serviceRadius business);
          fs =
            [\<lparr> name = ''Employee Count'', fvalue = NumV staff, fscore = employeeScore staff,
               weight = 30 / 100, explanation = getEmployeeExplanation staff \<rparr>,
             \<lparr> name = ''Fleet Size'', fvalue = NumV vehicles, fscore = fleetScore vehicles,
               weight = 25 / 100, explanation = getFleetExplanation vehicles \<rparr>,
             \<lparr> name = ''Permit Volume'', fvalue = NumV recent, fscore = permitScore recent,
               weight = 25 / 100,
               explanation = [NumStr recent, Lit '' permits in last 12 months''] \<rparr>,
             \<lparr> name = ''Service Area'',
               fvalue = (if radius \<noteq> 0 then NumV radius else TextV [Lit ''Unknown'']),
               fscore = areaScore radius, weight = 20 / 100,
               explanation = (if radius \<noteq> 0 then [NumStr radius, Lit '' mile service radius'']
                              else [Lit ''Service area unknown'']) \<rparr>]
      in \<lparr> score = Math_round (weightedTotal fs), factors = fs \<rparr>)"

subsection \<open>Online Weakness\<close>

definition hasSocial :: "BusinessWithRelations \<Rightarrow> bool" where
  "hasSocial business =
     (truthy_str (facebookUrl business) \<or> truthy_str (linkedinUrl business)
      \<or> truthy_str (instagramUrl business))"

definition totalReviews :: "BusinessWithRelations \<Rightarrow> number" where
  "totalReviews business =
     (case reviews business of
        None \<Rightarrow> 0
      | Some rs \<Rightarrow> foldl (\<lambda>sum r. sum + reviewCount r) 0 rs)"

definition reviewScore :: "number \<Rightarrow> number" where
  "reviewScore nReviews =
     (if nReviews \<ge> 100 then 20
      else if nReviews \<ge> 50 then 40
      else if nReviews \<ge> 20 then 60
      else if nReviews \<ge> 10 then 75
      else 90)"

definition calculateOnlineWeaknessScore ::
  "BusinessWithRelations \<Rightarrow> ScoringConfig \<Rightarrow> ComponentScore" where
  "calculateOnlineWeaknessScore business config =
     (let hasWebsite = truthy_str (website business);
          websiteScore = (if hasWebsite then 50 else 100);
          social = hasSocial business;
          socialScore = (if social then 40 else 90);
          nReviews = totalReviews business;
          seoScore = (if hasWebsite then 50 else 85);
          fs =
            [\<lparr> name = ''Website Quality'',
               fvalue = TextV [Lit (case website business of
                                      None \<Rightarrow> ''None''
                                    | Some w \<Rightarrow> if w \<noteq> [] then w else ''None'')],
               fscore = websiteScore, weight = 30 / 100,
               explanation = (if hasWebsite then [Lit ''Website exists (quality unknown)'']
                              else [Lit ''No website found'']) \<rparr>,
             \<lparr> name = ''Social Presence'',
               fvalue = TextV [Lit (if social then ''Present'' else ''None'')],
               fscore = socialScore, weight = 20 / 100,
               explanation = (if social then [Lit ''Some social media presence'']
                              else [Lit ''No social media found'']) \<rparr>,
             \<lparr> name = ''Review Volume'', fvalue = NumV nReviews, fscore = reviewScore nReviews,
               weight = 30 / 100,
               explanation = [NumStr nReviews, Lit '' total reviews across platforms''] \<rparr>,
             \<lparr> name = ''SEO Visibility'', fvalue = TextV [Lit ''Estimated''],
               fscore = seoScore, weight = 20 / 100,
               explanation = [Lit ''SEO visibility estimated from web presence''] \<rparr>]
      in \<lparr> score = Math_round (weightedTotal fs), factors = fs \<rparr>)"

subsection \<open>Acquisition Fit\<close>

definition ownershipScore :: "OwnershipType option \<Rightarrow> number" where
  "ownershipScore t =
     (if t = Some FAMILY_OWNED then 100
      else if t = Some FRANCHISE then 30
      else if t = Some PRIVATE_EQUITY then 10
      else if t = Some CORPORATE then 20
      else 50)"

definition currentYear :: "Clock \<Rightarrow> int" where
  "currentYear clock = getFullYear clock (now clock)"

definition yearsInBusiness :: "Clock \<Rightarrow> BusinessWithRelations \<Rightarrow> number" where
  "yearsInBusiness clock business =
     (case foundedYear business of
        None \<Rightarrow> 0
      | Some y \<Rightarrow> if y \<noteq> 0 then of_int (currentYear clock) - y else 0)"

definition ageScore :: "number \<Rightarrow> number" where
  "ageScore years =
     (if years \<ge> 10 \<and> years \<le> 30 then 100
      else if years > 30 \<and> years \<le> 50 then 80
      else if years \<ge> 5 \<and> years < 10 then 70
      else if years > 50 then 60
      else if years > 0 then years * 10
      else 50)"

definition premiumNiches :: "string list" where
  "premiumNiches = [''refrigeration'', ''clean_rooms'', ''industrial'', ''restaurants'']"

definition nicheScore :: "string list \<Rightarrow> number" where
  "nicheScore ns =
     (if length ns > 0
        then (if list_ex (\<lambda>n. toLowerCase n \<in> set premiumNiches) ns then 100 else 80)
      else 50)"

definition successionScore :: "SuccessionStatus option \<Rightarrow> number option \<Rightarrow> number" where
  "successionScore status age =
     (let base = (if status = Some OWNER_RETIRING then 100
                  else if status = Some NO_SUCCESSOR then 90
                  else if status = Some SUCCESSION_PLANNED then 40
                  else if status = Some RECENTLY_TRANSITIONED then 20
                  else 50)
      in case age of
           None \<Rightarrow> base
         | Some a \<Rightarrow>
             if a \<noteq> 0
               then (if a \<ge> 60 then max base 85
                     else if a \<ge> 55 then max base 70
                     else base)
             else base)"

definition calculateAcquisitionFitScore ::
  "Clock \<Rightarrow> BusinessWithRelations \<Rightarrow> ScoringConfig \<Rightarrow> ComponentScore" where
  "calculateAcquisitionFitScore clock business config =
     (let years = yearsInBusiness clock business;
          ns = niches business;
          fs =
            [\<lparr> name = ''Ownership Type'',
               fvalue = TextV [Lit (case ownershipType business of
                                      None \<Rightarrow> ''Unknown'' | Some t \<Rightarrow> ownershipName t)],
               fscore = ownershipScore (ownershipType business), weight = 30 / 100,
               explanation = getOwnershipExplanation (ownershipType business) \<rparr>,
             \<lparr> name = ''Business Age'',
               fvalue = (if years \<noteq> 0 then NumV years else TextV [Lit ''Unknown'']),
               fscore = ageScore years, weight = 25 / 100,
               explanation = (if years \<noteq> 0 then [NumStr years, Lit '' years in business'']
                              else [Lit ''Age unknown'']) \<rparr>,
             \<lparr> name = ''Niche Specialization'',
               fvalue = TextV [Lit (if length ns > 0 then join '', '' ns else ''General'')],
               fscore = nicheScore ns, weight = 25 / 100,
               explanation = (if length ns > 0 then [Lit (''Specializes in '' @ join '', '' ns)]
                              else [Lit ''General HVAC services'']) \<rparr>,
             \<lparr> name = ''Succession Status'',
               fvalue = TextV [Lit (case successionStatus business of
                                      None \<Rightarrow> ''Unknown'' | Some t \<Rightarrow> successionName t)],
               fscore = successionScore (successionStatus business) (ownerAge business),
               weight = 20 / 100,
               explanation =
                 getSuccessionExplanation (successionStatus business) (ownerAge business) \<rparr>]
      in \<lparr> score = Math_round (weightedTotal fs), factors = fs \<rparr>)"

subsection \<open>Growth Signals\<close>

definition thisYearPermits :: "Clock \<Rightarrow> BusinessWithRelations \<Rightarrow> number" where
  "thisYearPermits clock business =
     of_nat (length (filter
       (\<lambda>p. case issueDate p of
              None \<Rightarrow> False
            | Some d \<Rightarrow> getFullYear clock d = currentYear clock)
       (case permits business of None \<Rightarrow> [] | Some ps \<Rightarrow> ps)))"

definition lastYearPermits :: "Clock \<Rightarrow> BusinessWithRelations \<Rightarrow> number" where
  "lastYearPermits clock business =
     of_nat (length (filter
       (\<lambda>p. case issueDate p of
              None \<Rightarrow> False
            | Some d \<Rightarrow> getFullYear clock d = currentYear clock - 1)
       (case permits business of None \<Rightarrow> [] | Some ps \<Rightarrow> ps)))"

definition permitTrendScore :: "number \<Rightarrow> number \<Rightarrow> number" where
  "permitTrendScore thisYear lastYear =
     (if lastYear > 0
        then (let growth = (thisYear - lastYear) / lastYear in
              if growth \<ge> 2 / 10 then 100
              else if growth \<ge> 1 / 10 then 85
              else if growth \<ge> 0 then 70
              else if growth \<ge> - (1 / 10) then 50
              else 30)
      else 60)"

definition avgRating :: "BusinessWithRelations \<Rightarrow> number" where
  "avgRating business =
     (case reviews business of
        None \<Rightarrow> 0
      | Some rs \<Rightarrow>
          if length rs > 0
            then foldl (\<lambda>sum r. sum + rating r) 0 rs / of_nat (length rs)
          else 0)"

definition reviewTrendScore :: "number \<Rightarrow> number" where
  "reviewTrendScore avg =
     (if avg \<ge> 45 / 10 then 90
      else if avg \<ge> 4 then 75
      else if avg \<ge> 35 / 10 then 60
      else if avg > 0 then 40
      else 60)"

definition calculateGrowthSignalsScore ::
  "Clock \<Rightarrow> BusinessWithRelations \<Rightarrow> ScoringConfig \<Rightarrow> ComponentScore" where
  "calculateGrowthSignalsScore clock business config =
     (let thisYear = thisYearPermits clock business;
          lastYear = lastYearPermits clock business;
          avg = avgRating business;
          hiringScore = 60;
          fleetGrowthScore = 60;
          fs =
            [\<lparr> name = ''Permit Trend'',
               fvalue = TextV [NumStr thisYear, Lit '' this year vs '', NumStr lastYear,
                               Lit '' last year''],
               fscore = permitTrendScore thisYear lastYear, weight = 35 / 100,
               explanation = getPermitTrendExplanation thisYear lastYear \<rparr>,
             \<lparr> name = ''Review Trend'',
               fvalue = TextV (if avg > 0 then [Fixed 1 avg] else [Lit ''No data'']),
               fscore = reviewTrendScore avg, weight = 25 / 100,
               explanation = (if avg > 0 then [Fixed 1 avg, Lit '' average rating'']
                              else [Lit ''No review data'']) \<rparr>,
             \<lparr> name = ''Hiring Activity'', fvalue = TextV [Lit ''Unknown''],
               fscore = hiringScore, weight = 25 / 100,
               explanation = [Lit ''Hiring activity data not available''] \<rparr>,
             \<lparr> name = ''Fleet Growth'', fvalue = TextV [Lit ''Unknown''],
               fscore = fleetGrowthScore, weight = 15 / 100,
               explanation = [Lit ''Fleet growth data not available''] \<rparr>]
      in \<lparr> score = Math_round (weightedTotal fs), factors = fs \<rparr>)"

subsection \<open>The record store and the main scoring function\<close>

text \<open>The store holds the tables the modelled code touches, each a map from the row's
  id. A thrown value is the left injection of a sum: an
  \<^verbatim>\<open>Error\<close> with its message, or some other value (\<open>NonError\<close>). The store sets both
  timestamps of a created row to the current time.\<close>

datatype ResearchJobStatus = PENDING | QUEUED | RUNNING | COMPLETED | FAILED | CANCELLED

record ResearchJob =
  job_status :: ResearchJobStatus
  job_progress :: number
  job_businessesFound :: number
  job_businessesQualified :: number
  job_error :: "string option"
  job_startedAt :: "int option"
  job_completedAt :: "int option"

record Database =
  businesses :: "string \<rightharpoonup> BusinessWithRelations"
  scores :: "string \<rightharpoonup> Score"
  researchJobs :: "string \<rightharpoonup> ResearchJob"

datatype js_error = Error string | NonError

definition calculateBusinessScore ::
  "Clock \<Rightarrow> Database \<Rightarrow> string \<Rightarrow> ScoringConfig \<Rightarrow> js_error + (Score \<times> Database)" where
  "calculateBusinessScore clock db bid config =
     (case businesses db bid of
        None \<Rightarrow> Inl (Error (''Business not found: '' @ bid))
      | Some business \<Rightarrow>
          (let rp = calculateRevenueProxyScore clock business config;
               ow = calculateOnlineWeaknessScore business config;
               af = calculateAcquisitionFitScore clock business config;
               gs = calculateGrowthSignalsScore clock business config;
               overall = Math_round
                 (score rp * revenueProxy (weights config) +
                  score ow * onlineWeakness (weights config) +
                  score af * acquisitionFit (weights config) +
                  score gs * growthSignals (weights config));
               reco = getRecommendation overall config;
               bd = \<lparr> revenueProxy = rp, onlineWeakness = ow, acquisitionFit = af,
                      growthSignals = gs \<rparr>;
               key = bid @ ''_latest'';
               row = (case scores db key of
                        None \<Rightarrow>
                          \<lparr> score_id = key, businessId = bid, createdAt = now clock,
                            updatedAt = now clock, revenueProxyScore = score rp,
                            onlineWeaknessScore = score ow, acquisitionFitScore = score af,
                            growthSignalsScore = score gs, overallScore = overall,
                            recommendation = reco, breakdown = bd,
                            configVersion = version config \<rparr>
                      | Some old \<Rightarrow>
                          old \<lparr> revenueProxyScore := score rp, onlineWeaknessScore := score ow,
                                acquisitionFitScore := score af, growthSignalsScore := score gs,
                                overallScore := overall, recommendation := reco,
                                breakdown := bd, configVersion := version config,
                                updatedAt := now clock \<rparr>)
           in Inr (row, db \<lparr> scores := (scores db)(key \<mapsto> row) \<rparr>)))"

text \<open>\<^verbatim>\<open>batchScoreBusinesses\<close>: the loop carries the scores pushed so far, the lines
  written by \<^verbatim>\<open>console.error\<close> (the id and the error caught) and the store.\<close>

fun batchScoreLoop ::
  "Clock \<Rightarrow> ScoringConfig \<Rightarrow> string list \<Rightarrow> Score list \<Rightarrow> (string \<times> js_error) list \<Rightarrow> Database
   \<Rightarrow> Score list \<times> (string \<times> js_error) list \<times> Database" where
  "batchScoreLoop clock config [] acc logged db = (acc, logged, db)"
| "batchScoreLoop clock config (bid # rest) acc logged db =
     (case calculateBusinessScore clock db bid config of
        Inr (s, db') \<Rightarrow> batchScoreLoop clock config rest (acc @ [s]) logged db'
      | Inl e \<Rightarrow> batchScoreLoop clock config rest acc (logged @ [(bid, e)]) db)"

definition batchScoreBusinesses ::
  "Clock \<Rightarrow> Database \<Rightarrow> string list \<Rightarrow> ScoringConfig
   \<Rightarrow> Score list \<times> (string \<times> js_error) list \<times> Database" where
  "batchScoreBusinesses clock db businessIds config =
     batchScoreLoop clock config businessIds [] [] db"

section \<open>Polling for research completion (\<^verbatim>\<open>lib/ai/deep-research\<close>)\<close>

datatype ResearchStatus = pending | in_progress | completed | failed

record Usage =
  inputTokens :: number
  outputTokens :: number
  totalTokens :: number

record ResearchResult =
  res_id :: string
  res_status :: ResearchStatus
  res_output :: "string option"
  res_usage :: "Usage option"
  res_error :: "string option"

text \<open>What \<^verbatim>\<open>openai.responses.retrieve\<close> answers.\<close>

record ApiUsage =
  input_tokens :: number
  output_tokens :: number
  total_tokens :: number

record ApiResponse =
  api_id :: string
  api_status :: string
  api_output_text :: "string option"
  api_usage :: "ApiUsage option"
  api_error_message :: "string option"

text \<open>
  The world the poll runs in. The backend and the system clock are outside the program,
  so what they answer is a parameter: \<open>retrieve k\<close> is the outcome of the \<open>k\<close>-th call of
  \<^verbatim>\<open>openai.responses.retrieve\<close> (counting from 0), \<open>startTime\<close> the reading of
  \<^verbatim>\<open>Date.now()\<close> before the loop and \<open>dateNow k\<close> its reading in the \<open>k\<close>-th test of the
  loop condition. Nothing is assumed about how a timer of \<^verbatim>\<open>setTimeout\<close> moves the clock.
\<close>

record PollWorld =
  retrieve :: "nat \<Rightarrow> js_error + ApiResponse"
  startTime :: number
  dateNow :: "nat \<Rightarrow> number"

definition getResearchStatus :: "PollWorld \<Rightarrow> nat \<Rightarrow> string \<Rightarrow> ResearchResult" where
  "getResearchStatus w k responseId =
     (case retrieve w k of
        Inr response \<Rightarrow>
          \<lparr> res_id = api_id response,
            res_status = (if api_status response = ''completed'' then completed
                          else if api_status response = ''failed'' then failed
                          else if api_status response = ''in_progress'' then in_progress
                          else pending),
            res_output = api_output_text response,
            res_usage = (case api_usage response of
                           None \<Rightarrow> None
                         | Some u \<Rightarrow> Some \<lparr> inputTokens = input_tokens u,
                                           outputTokens = output_tokens u,
                                           totalTokens = total_tokens u \<rparr>),
            res_error = api_error_message response \<rparr>
      | Inl e \<Rightarrow>
          \<lparr> res_id = responseId, res_status = failed, res_output = None, res_usage = None,
            res_error = Some (case e of Error m \<Rightarrow> m
                                      | NonError \<Rightarrow> ''Failed to retrieve status'') \<rparr>)"

record PollOptions =
  maxWaitMs :: "number option"
  initialDelayMs :: "number option"
  maxDelayMs :: "number option"
  onProgress :: bool

text \<open>What a run of the poll does: the result it returns, the delays it passed to
  \<^verbatim>\<open>setTimeout\<close> and the results it passed to \<^verbatim>\<open>onProgress\<close>, both in order.\<close>

record PollOutcome =
  returned :: ResearchResult
  slept :: "number list"
  reported :: "ResearchResult list"

text \<open>The \<^verbatim>\<open>while\<close> loop. The clock may never reach the limit, so the loop is a
  partial function: \<open>None\<close> is a run that does not return.\<close>

partial_function (option) pollLoop ::
  "PollWorld \<Rightarrow> string \<Rightarrow> number \<Rightarrow> number \<Rightarrow> bool \<Rightarrow> nat \<Rightarrow> number \<Rightarrow> number list
   \<Rightarrow> ResearchResult list \<Rightarrow> PollOutcome option" where
  "pollLoop w responseId maxWait maxDelay notify k delay sl rep =
     (if dateNow w k - startTime w < maxWait
        then (let r = getResearchStatus w k responseId;
                  rep' = (if notify then rep @ [r] else rep) in
              if res_status r = completed \<or> res_status r = failed
                then Some \<lparr> returned = r, slept = sl, reported = rep' \<rparr>
              else pollLoop w responseId maxWait maxDelay notify (Suc k)
                     (min (delay * (15 / 10)) maxDelay) (sl @ [delay]) rep')
      else Some \<lparr> returned = \<lparr> res_id = responseId, res_status = failed,
                                res_output = None, res_usage = None,
                                res_error = Some ''Research timed out'' \<rparr>,
                  slept = sl, reported = rep \<rparr>)"

text \<open>The defaults of the destructured options.\<close>

definition maxWaitOf :: "PollOptions \<Rightarrow> number" where
  "maxWaitOf options = (case maxWaitMs options of None \<Rightarrow> 30 * 60 * 1000 | Some v \<Rightarrow> v)"

definition initialDelayOf :: "PollOptions \<Rightarrow> number" where
  "initialDelayOf options = (case initialDelayMs options of None \<Rightarrow> 5000 | Some v \<Rightarrow> v)"

definition maxDelayOf :: "PollOptions \<Rightarrow> number" where
  "maxDelayOf options = (case maxDelayMs options of None \<Rightarrow> 60000 | Some v \<Rightarrow> v)"

definition waitForResearchCompletion ::
  "PollWorld \<Rightarrow> string \<Rightarrow> PollOptions \<Rightarrow> PollOutcome option" where
  "waitForResearchCompletion w responseId options =
     pollLoop w responseId (maxWaitOf options) (maxDelayOf options) (onProgress options) 0
       (initialDelayOf options) [] []"

text \<open>The successive delays as the specification words them: each is the one before
  multiplied by the growth factor, capped at the maximum.\<close>

fun backoffDelays :: "number \<Rightarrow> number \<Rightarrow> number \<Rightarrow> nat \<Rightarrow> number list" where
  "backoffDelays factor cap d 0 = []"
| "backoffDelays factor cap d (Suc n) = d # backoffDelays factor cap (min (d * factor) cap) n"

text \<open>The value of \<^verbatim>\<open>delay\<close> after \<open>n\<close> rounds of the loop.\<close>

fun delayAfter :: "number \<Rightarrow> number \<Rightarrow> number \<Rightarrow> nat \<Rightarrow> number" where
  "delayAfter factor cap d 0 = d"
| "delayAfter factor cap d (Suc n) = delayAfter factor cap (min (d * factor) cap) n"

text \<open>A status that ends the poll, and a round of the loop that goes on: the loop
  condition holds at its \<open>k\<close>-th test and the \<open>k\<close>-th status check is not final.\<close>

definition terminal :: "ResearchResult \<Rightarrow> bool" where
  "terminal r \<longleftrightarrow> res_status r = completed \<or> res_status r = failed"

definition inTime :: "PollWorld \<Rightarrow> PollOptions \<Rightarrow> nat \<Rightarrow> bool" where
  "inTime w options k \<longleftrightarrow> dateNow w k - startTime w < maxWaitOf options"

definition goesOn :: "PollWorld \<Rightarrow> string \<Rightarrow> PollOptions \<Rightarrow> nat \<Rightarrow> bool" where
  "goesOn w responseId options k \<longleftrightarrow>
     inTime w options k \<and> \<not> terminal (getResearchStatus w k responseId)"

definition timedOut :: "string \<Rightarrow> ResearchResult" where
  "timedOut responseId =
     \<lparr> res_id = responseId, res_status = failed, res_output = None, res_usage = None,
       res_error = Some ''Research timed out'' \<rparr>"

section \<open>The region-discovery pipeline (\<^verbatim>\<open>lib/research/pipeline.ts\<close>)\<close>



record PipelineStats =
  discovered :: number
  validated :: number
  stored :: number
  scored :: number
  stat_errors :: number

record PipelineResult =
  success :: bool
  jobId :: string
  businessIds :: "string list"
  stats :: PipelineStats
  duration :: int
















section \<open>Specification-side definitions and sample inputs\<close>

text \<open>The match the specification describes for premium niches: a premium niche occurs
  as a substring of the lower-cased tag.\<close>

fun spec_prefix :: "string \<Rightarrow> string \<Rightarrow> bool" where
  "spec_prefix [] ys = True"
| "spec_prefix (x # xs) [] = False"
| "spec_prefix (x # xs) (y # ys) = (x = y \<and> spec_prefix xs ys)"

fun spec_substring :: "string \<Rightarrow> string \<Rightarrow> bool" where
  "spec_substring xs [] = (xs = [])"
| "spec_substring xs (y # ys) = (spec_prefix xs (y # ys) \<or> spec_substring xs ys)"

definition spec_premium_match :: "string \<Rightarrow> bool" where
  "spec_premium_match tag = list_ex (\<lambda>p. spec_substring p (toLowerCase tag)) premiumNiches"

text \<open>A clock for the sample runs: years of 31556952000 ms counted from 1970.\<close>

definition sampleClock :: Clock where
  "sampleClock =
     \<lparr> now = 1793700000000,
       getFullYear = (\<lambda>t. 1970 + t div 31556952000),
       setFullYear = (\<lambda>t y. t + (y - (1970 + t div 31556952000)) * 31556952000) \<rparr>"

text \<open>A business with every optional field absent.\<close>

definition blankBusiness :: BusinessWithRelations where
  "blankBusiness =
     \<lparr> serviceRadius = None, website = None, facebookUrl = None, linkedinUrl = None,
       instagramUrl = None, niches = [], ownershipType = None, ownerAge = None,
       foundedYear = None, successionStatus = None, permits = None, reviews = None,
       employees = None, fleet = None \<rparr>"

definition sampleDb :: Database where
  "sampleDb =
     \<lparr> businesses = [''b1'' \<mapsto> blankBusiness, ''b2'' \<mapsto> blankBusiness \<lparr> niches := [''Refrigeration''] \<rparr>],
       scores = Map.empty,
       researchJobs =
         [''job1'' \<mapsto> \<lparr> job_status = RUNNING, job_progress = 0, job_businessesFound = 0,
                          job_businessesQualified = 0, job_error = None, job_startedAt = None,
                          job_completedAt = None \<rparr>] \<rparr>"

text \<open>For the batch loop: the Score list a single identifier contributes, and the
  relation between the store at the start of a batch and the store after some rounds
  (the businesses are untouched; a Score row is either as it was or the row that scoring
  the business on the starting store returns).\<close>

definition scoreRows :: "Clock \<Rightarrow> Database \<Rightarrow> ScoringConfig \<Rightarrow> string \<Rightarrow> Score list" where
  "scoreRows clock db config bid =
     (case calculateBusinessScore clock db bid config of Inr (s, _) \<Rightarrow> [s] | Inl _ \<Rightarrow> [])"

definition batchInv :: "Clock \<Rightarrow> ScoringConfig \<Rightarrow> Database \<Rightarrow> Database \<Rightarrow> bool" where
  "batchInv clock config db0 db \<longleftrightarrow>
     businesses db = businesses db0 \<and>
     (\<forall>bid. scores db (bid @ ''_latest'') = scores db0 (bid @ ''_latest'')
            \<or> (\<exists>s d. calculateBusinessScore clock db0 bid config = Inr (s, d)
                      \<and> scores db (bid @ ''_latest'') = Some s))"

text \<open>Two worlds for the poll. In the first the clock stands still and the task completes
  at the ninth check; in the second each round takes 1000 seconds and the task stays in
  progress.\<close>

definition sampleResponse :: "string \<Rightarrow> ApiResponse" where
  "sampleResponse st =
     \<lparr> api_id = ''resp_1'', api_status = st, api_output_text = None, api_usage = None,
       api_error_message = None \<rparr>"

definition completingWorld :: PollWorld where
  "completingWorld =
     \<lparr> retrieve = (\<lambda>k. Inr (sampleResponse (if k < 8 then ''in_progress'' else ''completed''))),
       startTime = 0, dateNow = (\<lambda>k. 0) \<rparr>"

definition slowWorld :: PollWorld where
  "slowWorld =
     \<lparr> retrieve = (\<lambda>k. Inr (sampleResponse ''in_progress'')),
       startTime = 0, dateNow = (\<lambda>k. of_nat k * 1000000) \<rparr>"

definition defaultOptions :: PollOptions where
  "defaultOptions =
     \<lparr> maxWaitMs = None, initialDelayMs = None, maxDelayMs = None, onProgress = False \<rparr>"





text \<open>A configuration's factor tables with every entry removed.\<close>

definition emptyTables :: "FactorConfig list PerComponent" where
  "emptyTables = \<lparr> revenueProxy = [], onlineWeakness = [], acquisitionFit = [], growthSignals = [] \<rparr>"

section \<open>Properties of the scoring engine\<close>

subsection \<open>Recommendation thresholds\<close>

text \<open>
  Claim C2. For every overall score and every configuration the recommendation is chosen
  by successive inclusive comparisons, most restrictive first: at least \<open>highPriority\<close>
  gives HIGH_PRIORITY, otherwise at least \<open>mediumPriority\<close> gives MEDIUM_PRIORITY, otherwise
  at least \<open>lowPriority\<close> gives LOW_PRIORITY, otherwise NOT_RECOMMENDED. A score equal to
  \<open>highPriority\<close>, which is 75 in the default configuration, is HIGH_PRIORITY and not
  MEDIUM_PRIORITY.
\<close>

theorem recommendation_thresholds:
  "getRecommendation s config =
     (if s \<ge> highPriority (thresholds config) then HIGH_PRIORITY
      else if s \<ge> mediumPriority (thresholds config) then MEDIUM_PRIORITY
      else if s \<ge> lowPriority (thresholds config) then LOW_PRIORITY
      else NOT_RECOMMENDED)
   \<and> (getRecommendation s config = HIGH_PRIORITY \<longleftrightarrow> s \<ge> highPriority (thresholds config))
   \<and> (getRecommendation s config = MEDIUM_PRIORITY \<longleftrightarrow>
        s < highPriority (thresholds config) \<and> s \<ge> mediumPriority (thresholds config))
   \<and> (getRecommendation s config = LOW_PRIORITY \<longleftrightarrow>
        s < highPriority (thresholds config) \<and> s < mediumPriority (thresholds config)
        \<and> s \<ge> lowPriority (thresholds config))
   \<and> (getRecommendation s config = NOT_RECOMMENDED \<longleftrightarrow>
        s < highPriority (thresholds config) \<and> s < mediumPriority (thresholds config)
        \<and> s < lowPriority (thresholds config))
   \<and> getRecommendation (highPriority (thresholds config)) config = HIGH_PRIORITY
   \<and> getRecommendation (highPriority (thresholds config)) config \<noteq> MEDIUM_PRIORITY
   \<and> thresholds DEFAULT_SCORING_CONFIG =
       \<lparr> highPriority = 75, mediumPriority = 50, lowPriority = 25 \<rparr>
   \<and> getRecommendation 75 DEFAULT_SCORING_CONFIG = HIGH_PRIORITY"
proof -
  have chain: "getRecommendation s config =
     (if s \<ge> highPriority (thresholds config) then HIGH_PRIORITY
      else if s \<ge> mediumPriority (thresholds config) then MEDIUM_PRIORITY
      else if s \<ge> lowPriority (thresholds config) then LOW_PRIORITY
      else NOT_RECOMMENDED)"
    by (simp add: getRecommendation_def)
  have tiers:
    "getRecommendation s config = HIGH_PRIORITY \<longleftrightarrow> s \<ge> highPriority (thresholds config)"
    "getRecommendation s config = MEDIUM_PRIORITY \<longleftrightarrow>
        s < highPriority (thresholds config) \<and> s \<ge> mediumPriority (thresholds config)"
    "getRecommendation s config = LOW_PRIORITY \<longleftrightarrow>
        s < highPriority (thresholds config) \<and> s < mediumPriority (thresholds config)
        \<and> s \<ge> lowPriority (thresholds config)"
    "getRecommendation s config = NOT_RECOMMENDED \<longleftrightarrow>
        s < highPriority (thresholds config) \<and> s < mediumPriority (thresholds config)
        \<and> s < lowPriority (thresholds config)"
    by (auto simp: getRecommendation_def)
  have boundary: "getRecommendation (highPriority (thresholds config)) config = HIGH_PRIORITY"
    by (simp add: getRecommendation_def)
  have dflt: "thresholds DEFAULT_SCORING_CONFIG =
       \<lparr> highPriority = 75, mediumPriority = 50, lowPriority = 25 \<rparr>"
    "getRecommendation 75 DEFAULT_SCORING_CONFIG = HIGH_PRIORITY"
    by (simp_all add: getRecommendation_def DEFAULT_SCORING_CONFIG_def)
  show ?thesis
    using chain tiers boundary dflt by simp
qed

theorem recommendation_thresholds_witness:
  "getRecommendation 74 DEFAULT_SCORING_CONFIG = MEDIUM_PRIORITY
   \<and> getRecommendation 49 DEFAULT_SCORING_CONFIG = LOW_PRIORITY
   \<and> getRecommendation 24 DEFAULT_SCORING_CONFIG = NOT_RECOMMENDED"
proof -
  note t = recommendation_thresholds
  have d: "thresholds DEFAULT_SCORING_CONFIG =
       \<lparr> highPriority = 75, mediumPriority = 50, lowPriority = 25 \<rparr>"
    using t [of 0 DEFAULT_SCORING_CONFIG] by simp
  have "getRecommendation 74 DEFAULT_SCORING_CONFIG = MEDIUM_PRIORITY"
    using conjunct1 [OF t [of 74 DEFAULT_SCORING_CONFIG]] by (simp add: d)
  moreover have "getRecommendation 49 DEFAULT_SCORING_CONFIG = LOW_PRIORITY"
    using conjunct1 [OF t [of 49 DEFAULT_SCORING_CONFIG]] by (simp add: d)
  moreover have "getRecommendation 24 DEFAULT_SCORING_CONFIG = NOT_RECOMMENDED"
    using conjunct1 [OF t [of 24 DEFAULT_SCORING_CONFIG]] by (simp add: d)
  ultimately show ?thesis by simp
qed

subsection \<open>Niche specialization\<close>

text \<open>
  Claim C4, as stated, fails: the tag \<open>Commercial Refrigeration\<close> contains the premium
  niche \<open>refrigeration\<close> as a substring, yet the niche factor (the third factor of the
  Acquisition Fit component) scores 80, not 100.
\<close>

theorem niche_substring_counterexample:
  "spec_premium_match ''Commercial Refrigeration''
   \<and> fscore (factors (calculateAcquisitionFitScore sampleClock
        (blankBusiness \<lparr> niches := [''Commercial Refrigeration''] \<rparr>)
        DEFAULT_SCORING_CONFIG) ! 2) = 80"
  by (simp add: spec_premium_match_def calculateAcquisitionFitScore_def Let_def
      blankBusiness_def nicheScore_def toLowerCase_def lower_char_def premiumNiches_def)

text \<open>
  Claim C4, amended. The niche factor scores 100 when some niche tag, lower-cased, is
  equal to one of the premium niches \<open>refrigeration\<close>, \<open>clean_rooms\<close>, \<open>industrial\<close>,
  \<open>restaurants\<close> (a case-insensitive match of the whole tag); it scores 80 for any other
  non-empty niche list and 50 for an empty one.
\<close>

theorem niche_exact_match:
  "fscore (factors (calculateAcquisitionFitScore clock b config) ! 2) =
     (if niches b = [] then 50
      else if \<exists>n \<in> set (niches b).
                toLowerCase n \<in> {''refrigeration'', ''clean_rooms'', ''industrial'', ''restaurants''}
        then 100
      else 80)"
  by (simp add: calculateAcquisitionFitScore_def Let_def nicheScore_def premiumNiches_def
      list_ex_iff)

theorem niche_exact_match_witness:
  "fscore (factors (calculateAcquisitionFitScore sampleClock
      (blankBusiness \<lparr> niches := [''HVAC'', ''Clean_Rooms''] \<rparr>) DEFAULT_SCORING_CONFIG) ! 2) = 100"
  using niche_exact_match [of sampleClock "blankBusiness \<lparr> niches := [''HVAC'', ''Clean_Rooms''] \<rparr>"
      DEFAULT_SCORING_CONFIG]
  by (simp add: blankBusiness_def toLowerCase_def lower_char_def)

subsection \<open>Succession factor\<close>

text \<open>
  Claim C5. The succession factor (the fourth factor of the Acquisition Fit component) is
  the status-derived base (OWNER_RETIRING 100, NO_SUCCESSOR 90, SUCCESSION_PLANNED 40,
  RECENTLY_TRANSITIONED 20, otherwise 50) combined by \<open>max\<close> with an owner-age floor: 85
  when the owner is at least 60, 70 when at least 55 and below 60, no floor otherwise.
  So adding an owner age to an otherwise identical business never lowers the factor.
\<close>

theorem succession_max_floor:
  "fscore (factors (calculateAcquisitionFitScore clock b config) ! 3) =
     max (case successionStatus b of
            Some OWNER_RETIRING \<Rightarrow> 100 | Some NO_SUCCESSOR \<Rightarrow> 90
          | Some SUCCESSION_PLANNED \<Rightarrow> 40 | Some RECENTLY_TRANSITIONED \<Rightarrow> 20
          | _ \<Rightarrow> 50)
         (case ownerAge b of
            None \<Rightarrow> 0
          | Some a \<Rightarrow> if a \<ge> 60 then 85 else if a \<ge> 55 then 70 else 0)
   \<and> fscore (factors (calculateAcquisitionFitScore clock (b \<lparr> ownerAge := None \<rparr>) config) ! 3)
       \<le> fscore (factors (calculateAcquisitionFitScore clock (b \<lparr> ownerAge := Some age \<rparr>) config) ! 3)"
  by (simp add: calculateAcquisitionFitScore_def Let_def successionScore_def
      split: option.splits SuccessionStatus.splits)

theorem succession_max_floor_witness:
  "fscore (factors (calculateAcquisitionFitScore sampleClock
      (blankBusiness \<lparr> ownerAge := Some 62, successionStatus := Some SUCCESSION_PLANNED \<rparr>)
      DEFAULT_SCORING_CONFIG) ! 3) = 85"
  using succession_max_floor [of sampleClock
      "blankBusiness \<lparr> ownerAge := Some 62, successionStatus := Some SUCCESSION_PLANNED \<rparr>"
      DEFAULT_SCORING_CONFIG 62]
  by (simp add: blankBusiness_def)

subsection \<open>A business founded in the current year\<close>

text \<open>
  Claim C10. When \<open>foundedYear\<close> is the current calendar year the computed age is 0 and is
  treated as missing: the Business Age factor (the second factor of the Acquisition Fit
  component) is the same as for the otherwise identical business without \<open>foundedYear\<close>,
  namely score 50, value \<open>Unknown\<close> and explanation \<open>Age unknown\<close>.
\<close>

theorem founded_this_year_unknown:
  assumes "foundedYear b = Some (of_int (currentYear clock))"
  shows "factors (calculateAcquisitionFitScore clock b config) ! 1 =
           factors (calculateAcquisitionFitScore clock (b \<lparr> foundedYear := None \<rparr>) config) ! 1
         \<and> factors (calculateAcquisitionFitScore clock b config) ! 1 =
           \<lparr> name = ''Business Age'', fvalue = TextV [Lit ''Unknown''], fscore = 50,
             weight = 25 / 100, explanation = [Lit ''Age unknown''] \<rparr>"
  using assms
  by (simp add: calculateAcquisitionFitScore_def Let_def yearsInBusiness_def ageScore_def)

theorem founded_this_year_unknown_witness:
  "foundedYear (blankBusiness \<lparr> foundedYear := Some 2026 \<rparr>) = Some (of_int (currentYear sampleClock))
   \<and> fscore (factors (calculateAcquisitionFitScore sampleClock
        (blankBusiness \<lparr> foundedYear := Some 2026 \<rparr>) DEFAULT_SCORING_CONFIG) ! 1) = 50"
proof -
  have h: "foundedYear (blankBusiness \<lparr> foundedYear := Some 2026 \<rparr>)
             = Some (of_int (currentYear sampleClock))"
    by (simp add: currentYear_def sampleClock_def)
  show ?thesis
    using h conjunct2 [OF founded_this_year_unknown [OF h, of DEFAULT_SCORING_CONFIG]] by simp
qed

subsection \<open>Ranges of the factor and component scores\<close>






























lemma scorers_ignore_config:
  "calculateRevenueProxyScore clock b c1 = calculateRevenueProxyScore clock b c2"
  "calculateOnlineWeaknessScore b c1 = calculateOnlineWeaknessScore b c2"
  "calculateAcquisitionFitScore clock b c1 = calculateAcquisitionFitScore clock b c2"
  "calculateGrowthSignalsScore clock b c1 = calculateGrowthSignalsScore clock b c2"
  by (simp_all add: calculateRevenueProxyScore_def calculateOnlineWeaknessScore_def
      calculateAcquisitionFitScore_def calculateGrowthSignalsScore_def)

lemma getRecommendation_cong:
  "thresholds c1 = thresholds c2 \<Longrightarrow> getRecommendation s c1 = getRecommendation s c2"
  by (simp add: getRecommendation_def)

lemma calc_config_cong:
  assumes "weights c1 = weights c2" "thresholds c1 = thresholds c2" "version c1 = version c2"
  shows "calculateBusinessScore clock db bid c1 = calculateBusinessScore clock db bid c2"
  unfolding calculateBusinessScore_def
  using assms scorers_ignore_config [where ?c1.0 = c1 and ?c2.0 = c2] getRecommendation_cong [of c1 c2]
  by (simp add: Let_def split: option.splits)


subsection \<open>The weighted sum\<close>



subsection \<open>Scores under the default configuration\<close>



subsection \<open>The factor tables of the configuration\<close>

text \<open>
  Claim C6. Two configurations that agree on the four top-level weights and on the three
  thresholds give the same component scores, overall score, recommendation and breakdown
  (with its factor weights), however their factor tables differ: the Score and the store
  written are those of the first configuration under the version string of the second.
  The component scorers give the same result for any two configurations at all.
\<close>

theorem factor_tables_never_read:
  assumes "weights c1 = weights c2" and "thresholds c1 = thresholds c2"
  shows "calculateBusinessScore clock db bid c2 =
           calculateBusinessScore clock db bid (c1 \<lparr> version := version c2 \<rparr>)
     \<and> (\<forall>s1 d1 s2 d2.
           calculateBusinessScore clock db bid c1 = Inr (s1, d1) \<and>
           calculateBusinessScore clock db bid c2 = Inr (s2, d2) \<longrightarrow>
             revenueProxyScore s1 = revenueProxyScore s2
           \<and> onlineWeaknessScore s1 = onlineWeaknessScore s2
           \<and> acquisitionFitScore s1 = acquisitionFitScore s2
           \<and> growthSignalsScore s1 = growthSignalsScore s2
           \<and> overallScore s1 = overallScore s2
           \<and> recommendation s1 = recommendation s2
           \<and> breakdown s1 = breakdown s2
           \<and> s1 \<lparr> configVersion := version c2 \<rparr> = s2)
     \<and> calculateRevenueProxyScore clock b c1 = calculateRevenueProxyScore clock b c2
     \<and> calculateOnlineWeaknessScore b c1 = calculateOnlineWeaknessScore b c2
     \<and> calculateAcquisitionFitScore clock b c1 = calculateAcquisitionFitScore clock b c2
     \<and> calculateGrowthSignalsScore clock b c1 = calculateGrowthSignalsScore clock b c2"
proof -
  have eq: "calculateBusinessScore clock db bid c2 =
           calculateBusinessScore clock db bid (c1 \<lparr> version := version c2 \<rparr>)"
    by (rule calc_config_cong) (simp_all add: assms)
  have pair: "revenueProxyScore s1 = revenueProxyScore s2
           \<and> onlineWeaknessScore s1 = onlineWeaknessScore s2
           \<and> acquisitionFitScore s1 = acquisitionFitScore s2
           \<and> growthSignalsScore s1 = growthSignalsScore s2
           \<and> overallScore s1 = overallScore s2
           \<and> recommendation s1 = recommendation s2
           \<and> breakdown s1 = breakdown s2
           \<and> s1 \<lparr> configVersion := version c2 \<rparr> = s2"
    if r1: "calculateBusinessScore clock db bid c1 = Inr (s1, d1)"
      and r2: "calculateBusinessScore clock db bid c2 = Inr (s2, d2)" for s1 d1 s2 d2
  proof -
    from r1 obtain bz where bz: "businesses db bid = Some bz"
      by (auto simp: calculateBusinessScore_def split: option.splits)
    have "s1 \<lparr> configVersion := version c2 \<rparr> = s2"
      using r1 r2 bz assms scorers_ignore_config [where ?c1.0 = c1 and ?c2.0 = c2]
        getRecommendation_cong [of c1 c2]
      by (auto simp: calculateBusinessScore_def Let_def split: option.splits)
    then show ?thesis by auto
  qed
  show ?thesis
    using eq pair scorers_ignore_config [where ?c1.0 = c1 and ?c2.0 = c2] by blast
qed

theorem factor_tables_never_read_witness:
  "calculateBusinessScore sampleClock sampleDb ''b1'' (DEFAULT_SCORING_CONFIG \<lparr> factorTables := emptyTables \<rparr>)
     = calculateBusinessScore sampleClock sampleDb ''b1'' DEFAULT_SCORING_CONFIG"
  using factor_tables_never_read [of DEFAULT_SCORING_CONFIG
      "DEFAULT_SCORING_CONFIG \<lparr> factorTables := emptyTables \<rparr>" sampleClock sampleDb "''b1''" blankBusiness]
  by simp

subsection \<open>Batch scoring\<close>

lemma calc_not_found:
  "businesses db bid = None \<Longrightarrow>
     calculateBusinessScore clock db bid config = Inl (Error (''Business not found: '' @ bid))"
  by (simp add: calculateBusinessScore_def)

lemma calc_store:
  assumes "calculateBusinessScore clock db bid config = Inr (s, db')"
  shows "db' = db \<lparr> scores := (scores db)(bid @ ''_latest'' \<mapsto> s) \<rparr>"
    and "businessId s = bid \<or> scores db (bid @ ''_latest'') \<noteq> None"
  using assms by (auto simp: calculateBusinessScore_def Let_def split: option.splits)

text \<open>Scoring again a business whose stored row is the one just computed gives that row.\<close>

lemma calc_again:
  assumes "calculateBusinessScore clock db0 bid config = Inr (s, d)"
    and "businesses db bid = businesses db0 bid"
    and "scores db (bid @ ''_latest'') = Some s"
  shows "calculateBusinessScore clock db bid config
           = Inr (s, db \<lparr> scores := (scores db)(bid @ ''_latest'' \<mapsto> s) \<rparr>)"
  using assms by (auto simp: calculateBusinessScore_def Let_def split: option.splits)

lemma calc_same_row:
  assumes "calculateBusinessScore clock db0 bid config = Inr (s, d)"
    and "businesses db bid = businesses db0 bid"
    and "scores db (bid @ ''_latest'') = scores db0 (bid @ ''_latest'')"
  shows "calculateBusinessScore clock db bid config
           = Inr (s, db \<lparr> scores := (scores db)(bid @ ''_latest'' \<mapsto> s) \<rparr>)"
  using assms by (auto simp: calculateBusinessScore_def Let_def split: option.splits)

lemma batchInv_refl: "batchInv clock config db0 db0"
  by (simp add: batchInv_def)

lemma batchInv_step:
  assumes inv: "batchInv clock config db0 db"
    and found: "businesses db0 bid = Some b"
  shows "\<exists>s d. calculateBusinessScore clock db0 bid config = Inr (s, d)
           \<and> calculateBusinessScore clock db bid config
               = Inr (s, db \<lparr> scores := (scores db)(bid @ ''_latest'' \<mapsto> s) \<rparr>)
           \<and> batchInv clock config db0 (db \<lparr> scores := (scores db)(bid @ ''_latest'' \<mapsto> s) \<rparr>)"
proof -
  from found obtain s d where r0: "calculateBusinessScore clock db0 bid config = Inr (s, d)"
    by (auto simp: calculateBusinessScore_def Let_def)
  have bs: "businesses db bid = businesses db0 bid" using inv by (simp add: batchInv_def)
  from inv have "scores db (bid @ ''_latest'') = scores db0 (bid @ ''_latest'')
            \<or> (\<exists>s d. calculateBusinessScore clock db0 bid config = Inr (s, d)
                      \<and> scores db (bid @ ''_latest'') = Some s)"
    by (simp add: batchInv_def)
  then have r: "calculateBusinessScore clock db bid config
               = Inr (s, db \<lparr> scores := (scores db)(bid @ ''_latest'' \<mapsto> s) \<rparr>)"
  proof
    assume "scores db (bid @ ''_latest'') = scores db0 (bid @ ''_latest'')"
    then show ?thesis by (rule calc_same_row [OF r0 bs])
  next
    assume "\<exists>s d. calculateBusinessScore clock db0 bid config = Inr (s, d)
                      \<and> scores db (bid @ ''_latest'') = Some s"
    with r0 have "scores db (bid @ ''_latest'') = Some s" by auto
    then show ?thesis by (rule calc_again [OF r0 bs])
  qed
  have "batchInv clock config db0 (db \<lparr> scores := (scores db)(bid @ ''_latest'' \<mapsto> s) \<rparr>)"
    unfolding batchInv_def
  proof (intro conjI allI)
    show "businesses (db \<lparr> scores := (scores db)(bid @ ''_latest'' \<mapsto> s) \<rparr>) = businesses db0"
      using inv by (simp add: batchInv_def)
  next
    fix x
    show "scores (db \<lparr> scores := (scores db)(bid @ ''_latest'' \<mapsto> s) \<rparr>) (x @ ''_latest'')
            = scores db0 (x @ ''_latest'')
          \<or> (\<exists>s' d. calculateBusinessScore clock db0 x config = Inr (s', d)
                \<and> scores (db \<lparr> scores := (scores db)(bid @ ''_latest'' \<mapsto> s) \<rparr>) (x @ ''_latest'')
                    = Some s')"
    proof (cases "x = bid")
      case True
      then show ?thesis using r0 by simp
    next
      case False
      then show ?thesis using inv by (simp add: batchInv_def)
    qed
  qed
  with r0 r show ?thesis by blast
qed

lemma batchScoreLoop_spec:
  assumes "batchInv clock config db0 db"
  shows "\<exists>db'. batchScoreLoop clock config ids acc logged db =
           (acc @ concat (map (scoreRows clock db0 config) ids),
            logged @ map (\<lambda>bid. (bid, Error (''Business not found: '' @ bid)))
                       (filter (\<lambda>bid. businesses db0 bid = None) ids),
            db')
         \<and> batchInv clock config db0 db'"
  using assms
proof (induction ids arbitrary: acc logged db)
  case Nil
  then show ?case by simp
next
  case (Cons bid rest)
  show ?case
  proof (cases "businesses db0 bid")
    case None
    then have nf: "businesses db bid = None" using Cons.prems by (simp add: batchInv_def)
    have "scoreRows clock db0 config bid = []"
      by (simp add: scoreRows_def calc_not_found [OF None])
    then show ?thesis
      using Cons.IH [OF Cons.prems, of acc "logged @ [(bid, Error (''Business not found: '' @ bid))]"]
        None calc_not_found [OF nf, of clock config]
      by simp
  next
    case (Some b)
    from batchInv_step [OF Cons.prems Some] obtain s d
      where r0: "calculateBusinessScore clock db0 bid config = Inr (s, d)"
        and r: "calculateBusinessScore clock db bid config
               = Inr (s, db \<lparr> scores := (scores db)(bid @ ''_latest'' \<mapsto> s) \<rparr>)"
        and inv': "batchInv clock config db0 (db \<lparr> scores := (scores db)(bid @ ''_latest'' \<mapsto> s) \<rparr>)"
      by blast
    have "scoreRows clock db0 config bid = [s]" by (simp add: scoreRows_def r0)
    then show ?thesis
      using Cons.IH [OF inv', of "acc @ [s]" logged] Some r by simp
  qed
qed

text \<open>
  Claim C8. Batch scoring goes through the identifiers in order and isolates failures:
  the returned list holds, in input order, exactly one Score for each identifier whose
  scoring succeeds and nothing for one whose scoring fails, the later identifiers being
  scored all the same. Each Score is the one that scoring the identifier alone on the
  starting store returns; scoring fails exactly when the store has no business under the
  identifier, and every failure is logged with its identifier, in order.
\<close>

theorem batch_error_isolation:
  "fst (batchScoreBusinesses clock db ids config)
     = concat (map (\<lambda>bid. case calculateBusinessScore clock db bid config of
                             Inr (s, _) \<Rightarrow> [s] | Inl _ \<Rightarrow> []) ids)
   \<and> length (fst (batchScoreBusinesses clock db ids config))
       = length (filter (\<lambda>bid. businesses db bid \<noteq> None) ids)
   \<and> map fst (fst (snd (batchScoreBusinesses clock db ids config)))
       = filter (\<lambda>bid. businesses db bid = None) ids
   \<and> (\<forall>bid. isl (calculateBusinessScore clock db bid config) \<longleftrightarrow> businesses db bid = None)"
proof -
  from batchScoreLoop_spec [OF batchInv_refl [of clock config db], of ids "[]" "[]"]
  obtain db' where r: "batchScoreBusinesses clock db ids config =
           (concat (map (scoreRows clock db config) ids),
            map (\<lambda>bid. (bid, Error (''Business not found: '' @ bid)))
                       (filter (\<lambda>bid. businesses db bid = None) ids),
            db')"
    by (auto simp: batchScoreBusinesses_def)
  have fails: "isl (calculateBusinessScore clock db bid config) \<longleftrightarrow> businesses db bid = None"
    for bid
    by (cases "businesses db bid") (simp_all add: calculateBusinessScore_def Let_def)
  have rows: "scoreRows clock db config
      = (\<lambda>bid. case calculateBusinessScore clock db bid config of
                             Inr (s, _) \<Rightarrow> [s] | Inl _ \<Rightarrow> [])"
    by (rule ext) (simp add: scoreRows_def)
  have len: "length (concat (map (scoreRows clock db config) xs))
      = length (filter (\<lambda>bid. businesses db bid \<noteq> None) xs)" for xs
  proof (induction xs)
    case Nil
    show ?case by simp
  next
    case (Cons bid xs)
    show ?case
      using Cons.IH fails [of bid]
      by (cases "calculateBusinessScore clock db bid config")
         (auto simp: scoreRows_def split: prod.splits)
  qed
  show ?thesis
    using r len [of ids] fails by (simp add: rows comp_def)
qed

theorem batch_error_isolation_witness:
  "length (fst (batchScoreBusinesses sampleClock sampleDb [''b1'', ''gone'', ''b2''] DEFAULT_SCORING_CONFIG)) = 2
   \<and> map fst (fst (snd (batchScoreBusinesses sampleClock sampleDb [''b1'', ''gone'', ''b2'']
        DEFAULT_SCORING_CONFIG))) = [''gone'']"
proof -
  note t = batch_error_isolation [of sampleClock sampleDb "[''b1'', ''gone'', ''b2'']"
      DEFAULT_SCORING_CONFIG]
  have "length (fst (batchScoreBusinesses sampleClock sampleDb [''b1'', ''gone'', ''b2'']
      DEFAULT_SCORING_CONFIG)) = 2"
    using conjunct1 [OF conjunct2 [OF t]] by (simp add: sampleDb_def)
  moreover have "map fst (fst (snd (batchScoreBusinesses sampleClock sampleDb
      [''b1'', ''gone'', ''b2''] DEFAULT_SCORING_CONFIG))) = [''gone'']"
    using conjunct1 [OF conjunct2 [OF conjunct2 [OF t]]] by (simp add: sampleDb_def)
  ultimately show ?thesis by simp
qed

section \<open>Properties of the poll\<close>

lemma pollLoop_rounds:
  assumes "\<forall>j<n. goesOn w rid options (k + j)"
  shows "pollLoop w rid (maxWaitOf options) cap notify k delay sl rep =
         pollLoop w rid (maxWaitOf options) cap notify (k + n)
           (delayAfter (15 / 10) cap delay n)
           (sl @ backoffDelays (15 / 10) cap delay n)
           (rep @ (if notify then map (\<lambda>j. getResearchStatus w j rid) [k..<k + n] else []))"
  using assms
proof (induction n arbitrary: k delay sl rep)
  case 0
  show ?case by simp
next
  case (Suc n)
  from Suc.prems have g: "goesOn w rid options k"
    by (metis add.right_neutral zero_less_Suc)
  from Suc.prems have rest: "\<forall>j<n. goesOn w rid options (Suc k + j)"
    by (metis Suc_less_eq add_Suc_shift)
  have step: "pollLoop w rid (maxWaitOf options) cap notify k delay sl rep =
      pollLoop w rid (maxWaitOf options) cap notify (Suc k) (min (delay * (15 / 10)) cap)
        (sl @ [delay]) (if notify then rep @ [getResearchStatus w k rid] else rep)"
    using g by (subst pollLoop.simps) (simp add: goesOn_def inTime_def terminal_def Let_def)
  show ?case
    unfolding step Suc.IH [OF rest]
    by (simp add: upt_conv_Cons del: upt_Suc)
qed

lemma pollLoop_exit_timeout:
  assumes "\<not> inTime w options k"
  shows "pollLoop w rid (maxWaitOf options) cap notify k delay sl rep =
           Some \<lparr> returned = timedOut rid, slept = sl, reported = rep \<rparr>"
  using assms by (subst pollLoop.simps) (simp add: inTime_def timedOut_def)

lemma pollLoop_exit_status:
  assumes "inTime w options k" and "terminal (getResearchStatus w k rid)"
  shows "pollLoop w rid (maxWaitOf options) cap notify k delay sl rep =
           Some \<lparr> returned = getResearchStatus w k rid, slept = sl,
                  reported = (if notify then rep @ [getResearchStatus w k rid] else rep) \<rparr>"
  using assms by (subst pollLoop.simps) (simp add: inTime_def terminal_def Let_def)

lemma backoffDelays_nth:
  "Suc i < n \<Longrightarrow> backoffDelays f c d n ! Suc i = min (backoffDelays f c d n ! i * f) c"
proof (induction n arbitrary: d i)
  case 0
  then show ?case by simp
next
  case (Suc n)
  show ?case
  proof (cases i)
    case 0
    with Suc.prems obtain m where "n = Suc m" by (cases n) auto
    with 0 show ?thesis by simp
  next
    case (Suc i')
    with Suc.prems have "Suc i' < n" by simp
    from Suc.IH [OF this] Suc show ?thesis by simp
  qed
qed

lemma backoffDelays_first: "0 < n \<Longrightarrow> backoffDelays f c d n ! 0 = d"
  by (cases n) simp_all

text \<open>
  Claim C9. The poll backs off exponentially: the first delay is the initial delay (5000
  ms by default), and each later delay is the one before multiplied by the growth factor
  1.5 and capped at the maximum delay (60000 ms by default). If no status check is final
  while the elapsed time stays below the maximum wait (30 minutes by default), the first
  test of the loop condition at or after the limit ends the poll with the status
  \<open>failed\<close>, the error \<open>Research timed out\<close> and no output. A final status (completed or
  failed) seen before that is returned at once, with no further delay. In both cases the
  poll returns.
\<close>

theorem poll_backoff_timeout:
  "((\<forall>j<n. goesOn w rid options j) \<and> \<not> inTime w options n \<longrightarrow>
      waitForResearchCompletion w rid options =
        Some \<lparr> returned = timedOut rid,
               slept = backoffDelays (15 / 10) (maxDelayOf options) (initialDelayOf options) n,
               reported = (if onProgress options
                           then map (\<lambda>j. getResearchStatus w j rid) [0..<n] else []) \<rparr>)
   \<and> ((\<forall>j<n. goesOn w rid options j) \<and> inTime w options n
         \<and> terminal (getResearchStatus w n rid) \<longrightarrow>
      waitForResearchCompletion w rid options =
        Some \<lparr> returned = getResearchStatus w n rid,
               slept = backoffDelays (15 / 10) (maxDelayOf options) (initialDelayOf options) n,
               reported = (if onProgress options
                           then map (\<lambda>j. getResearchStatus w j rid) [0..<Suc n] else []) \<rparr>)
   \<and> (0 < n \<longrightarrow> backoffDelays f cap d n ! 0 = d)
   \<and> (\<forall>i. Suc i < n \<longrightarrow>
         backoffDelays f cap d n ! Suc i = min (backoffDelays f cap d n ! i * f) cap)
   \<and> res_status (timedOut rid) = failed \<and> res_output (timedOut rid) = None
   \<and> maxWaitOf defaultOptions = 30 * 60 * 1000
   \<and> initialDelayOf defaultOptions = 5000
   \<and> maxDelayOf defaultOptions = 60000"
proof -
  have a: "waitForResearchCompletion w rid options =
        Some \<lparr> returned = timedOut rid,
               slept = backoffDelays (15 / 10) (maxDelayOf options) (initialDelayOf options) n,
               reported = (if onProgress options
                           then map (\<lambda>j. getResearchStatus w j rid) [0..<n] else []) \<rparr>"
    if "\<forall>j<n. goesOn w rid options j" and "\<not> inTime w options n"
    unfolding waitForResearchCompletion_def
    using pollLoop_rounds [of n w rid options 0] that
    by (simp add: pollLoop_exit_timeout)
  have b: "waitForResearchCompletion w rid options =
        Some \<lparr> returned = getResearchStatus w n rid,
               slept = backoffDelays (15 / 10) (maxDelayOf options) (initialDelayOf options) n,
               reported = (if onProgress options
                           then map (\<lambda>j. getResearchStatus w j rid) [0..<Suc n] else []) \<rparr>"
    if "\<forall>j<n. goesOn w rid options j" and "inTime w options n"
      and "terminal (getResearchStatus w n rid)"
    unfolding waitForResearchCompletion_def
    using pollLoop_rounds [of n w rid options 0] that
    by (simp add: pollLoop_exit_status)
  have c: "maxWaitOf defaultOptions = 30 * 60 * 1000" "initialDelayOf defaultOptions = 5000"
    "maxDelayOf defaultOptions = 60000"
    by (simp_all add: maxWaitOf_def initialDelayOf_def maxDelayOf_def defaultOptions_def)
  show ?thesis
    using a b c backoffDelays_first [of n f cap d] backoffDelays_nth [of _ n f cap d]
    by (simp add: timedOut_def)
qed

theorem poll_backoff_timeout_witness:
  "waitForResearchCompletion slowWorld ''resp_1'' defaultOptions =
     Some \<lparr> returned = \<lparr> res_id = ''resp_1'', res_status = failed, res_output = None,
                          res_usage = None, res_error = Some ''Research timed out'' \<rparr>,
            slept = [5000, 7500], reported = [] \<rparr>
   \<and> waitForResearchCompletion completingWorld ''resp_1'' defaultOptions =
     Some \<lparr> returned = \<lparr> res_id = ''resp_1'', res_status = completed, res_output = None,
                          res_usage = None, res_error = None \<rparr>,
            slept = [5000, 7500, 11250, 16875, 50625 / 2, 151875 / 4, 455625 / 8, 60000],
            reported = [] \<rparr>"
proof -
  have slow: "goesOn slowWorld ''resp_1'' defaultOptions j \<longleftrightarrow> j < 2" for j
  proof -
    have "(of_nat j :: rat) * 1000000 < 1800000 \<longleftrightarrow> of_nat j < (of_nat 2 :: rat)"
      by (cases "j < 2") (auto simp: not_less numeral_2_eq_2 less_Suc_eq Suc_le_eq
          dest!: Suc_leI)
    then show ?thesis
      by (simp add: goesOn_def inTime_def terminal_def getResearchStatus_def slowWorld_def
          sampleResponse_def maxWaitOf_def defaultOptions_def)
  qed
  have compl: "goesOn completingWorld ''resp_1'' defaultOptions j \<longleftrightarrow> j < 8" for j
    by (simp add: goesOn_def inTime_def terminal_def getResearchStatus_def completingWorld_def
        sampleResponse_def maxWaitOf_def defaultOptions_def)
  have t1: "\<not> inTime slowWorld defaultOptions 2"
    by (simp add: inTime_def slowWorld_def maxWaitOf_def defaultOptions_def)
  have t2: "inTime completingWorld defaultOptions 8
      \<and> terminal (getResearchStatus completingWorld 8 ''resp_1'')"
    by (simp add: inTime_def terminal_def getResearchStatus_def completingWorld_def
        sampleResponse_def maxWaitOf_def defaultOptions_def)
  have d: "maxDelayOf defaultOptions = 60000" "initialDelayOf defaultOptions = 5000"
    "onProgress defaultOptions = False"
    by (simp_all add: maxDelayOf_def initialDelayOf_def defaultOptions_def)
  have "waitForResearchCompletion slowWorld ''resp_1'' defaultOptions =
     Some \<lparr> returned = timedOut ''resp_1'', slept = backoffDelays (15 / 10) 60000 5000 2,
            reported = [] \<rparr>"
    using poll_backoff_timeout [of 2 slowWorld "''resp_1''" defaultOptions] slow t1 d
    by simp
  moreover have "waitForResearchCompletion completingWorld ''resp_1'' defaultOptions =
     Some \<lparr> returned = getResearchStatus completingWorld 8 ''resp_1'',
            slept = backoffDelays (15 / 10) 60000 5000 8, reported = [] \<rparr>"
    using poll_backoff_timeout [of 8 completingWorld "''resp_1''" defaultOptions] compl t2 d
    by simp
  moreover have "backoffDelays (15 / 10) 60000 5000 2 = [5000, 7500]"
    by (simp add: numeral_2_eq_2)
  moreover have "backoffDelays (15 / 10) 60000 5000 8 =
      [5000, 7500, 11250, 16875, 50625 / 2, 151875 / 4, 455625 / 8, 60000]"
    by (simp add: eval_nat_numeral)
  ultimately show ?thesis
    by (simp add: timedOut_def getResearchStatus_def completingWorld_def sampleResponse_def)
qed

section \<open>Properties of the pipeline\<close>



















end
